theory Spec2Isabelle
  imports Main "HOL-Library.AList" "HOL-Library.Sublist"
begin

section \<open>Python values\<close>

text \<open>
  The values that reach the handlers of \<^verbatim>\<open>server/api/system/general.py\<close>: what
  \<^verbatim>\<open>request.get_json()\<close> parses, what the application config holds and what the
  handlers return as payloads. A dict is the list of its items in insertion order (keys
  distinct). A float is kept as the text of its \<^verbatim>\<open>repr\<close>: the handlers only ever
  print it.
\<close>

datatype pyval =
    PNone
  | PBool bool
  | PInt int
  | PFloat string
  | PStr string
  | PList "pyval list"
  | PDict "(string \<times> pyval) list"

text \<open>\<^verbatim>\<open>type(v).__name__\<close>, as it appears in the interpreter's error messages.\<close>

fun type_name :: "pyval \<Rightarrow> string" where
  "type_name PNone = ''NoneType''"
| "type_name (PBool _) = ''bool''"
| "type_name (PInt _) = ''int''"
| "type_name (PFloat _) = ''float''"
| "type_name (PStr _) = ''str''"
| "type_name (PList _) = ''list''"
| "type_name (PDict _) = ''dict''"

subsection \<open>Exceptions\<close>

text \<open>
  An exception is known to the handlers by two things only: whether it is an instance of
  \<^verbatim>\<open>Exception\<close> (what \<^verbatim>\<open>except Exception\<close> catches) and the text \<^verbatim>\<open>str(e)\<close>.
  \<open>BaseException\<close> stands for the instances of \<^verbatim>\<open>BaseException\<close> outside
  \<^verbatim>\<open>Exception\<close> (\<^verbatim>\<open>KeyboardInterrupt\<close>, \<^verbatim>\<open>SystemExit\<close>, \<^verbatim>\<open>GeneratorExit\<close>).
\<close>

datatype exn = Exception string | BaseException string

fun is_Exception :: "exn \<Rightarrow> bool" where
  "is_Exception (Exception _) = True"
| "is_Exception (BaseException _) = False"

fun str_exn :: "exn \<Rightarrow> string" where
  "str_exn (Exception s) = s"
| "str_exn (BaseException s) = s"

definition quoted :: "string \<Rightarrow> string" where
  "quoted s = [CHR 0x27] @ s @ [CHR 0x27]"

text \<open>\<^verbatim>\<open>AttributeError\<close> of \<^verbatim>\<open>v.get\<close> on a value that has no such method.\<close>

definition AttributeError :: "pyval \<Rightarrow> string \<Rightarrow> exn" where
  "AttributeError v attr =
     Exception (quoted (type_name v) @ '' object has no attribute '' @ quoted attr)"

text \<open>\<^verbatim>\<open>KeyError(k)\<close> for a key that is a plain identifier: its text is the key in quotes.\<close>

definition KeyError :: "string \<Rightarrow> exn" where
  "KeyError k = Exception (quoted k)"

text \<open>\<^verbatim>\<open>TypeError\<close> of \<^verbatim>\<open>v[k] = x\<close> with a \<^verbatim>\<open>str\<close> key on a value that is not a dict.\<close>

definition TypeError_setitem :: "pyval \<Rightarrow> exn" where
  "TypeError_setitem v =
     Exception (case v of
         PList _ \<Rightarrow> ''list indices must be integers or slices, not str''
       | _ \<Rightarrow> quoted (type_name v) @ '' object does not support item assignment'')"

subsection \<open>Dict operations\<close>

text \<open>\<^verbatim>\<open>dict.get(k)\<close>: the value, or \<^verbatim>\<open>None\<close> for a missing key.\<close>

definition dict_get :: "(string \<times> pyval) list \<Rightarrow> string \<Rightarrow> pyval" where
  "dict_get kvs k = (case map_of kvs k of None \<Rightarrow> PNone | Some v \<Rightarrow> v)"

text \<open>\<^verbatim>\<open>data.get(k)\<close> on any value: only a dict has the method.\<close>

fun py_get :: "pyval \<Rightarrow> string \<Rightarrow> exn + pyval" where
  "py_get (PDict kvs) k = Inr (dict_get kvs k)"
| "py_get v k = Inl (AttributeError v ''get'')"

text \<open>\<^verbatim>\<open>d[k]\<close> on a dict: \<^verbatim>\<open>KeyError\<close> for a missing key.\<close>

definition getitem :: "(string \<times> pyval) list \<Rightarrow> string \<Rightarrow> exn + pyval" where
  "getitem kvs k = (case map_of kvs k of None \<Rightarrow> Inl (KeyError k) | Some v \<Rightarrow> Inr v)"

text \<open>
  \<^verbatim>\<open>v[k] = x\<close>: on a dict the key keeps its place, or is appended when new.
\<close>

fun setitem :: "pyval \<Rightarrow> string \<Rightarrow> pyval \<Rightarrow> exn + pyval" where
  "setitem (PDict kvs) k x = Inr (PDict (AList.update k x kvs))"
| "setitem v k x = Inl (TypeError_setitem v)"

subsection \<open>\<^verbatim>\<open>str\<close> and \<^verbatim>\<open>repr\<close>\<close>

definition digit_char :: "nat \<Rightarrow> char" where
  "digit_char n = ''0123456789'' ! n"

fun str_nat :: "nat \<Rightarrow> string" where
  "str_nat n = (if n < 10 then [digit_char n] else str_nat (n div 10) @ [digit_char (n mod 10)])"

declare str_nat.simps [simp del]

definition str_int :: "int \<Rightarrow> string" where
  "str_int i = (if i < 0 then CHR ''-'' # str_nat (nat (- i)) else str_nat (nat i))"

fun join :: "string \<Rightarrow> string list \<Rightarrow> string" where
  "join sep [] = []"
| "join sep [x] = x"
| "join sep (x # y # ys) = x @ sep @ join sep (y # ys)"

text \<open>
  \<^verbatim>\<open>repr(v)\<close>. The \<^verbatim>\<open>repr\<close> of a \<^verbatim>\<open>str\<close> (choice of quote, escapes, the Unicode
  table of printable characters) is the interpreter's, taken as the parameter \<open>rs\<close>.
\<close>

primrec py_repr :: "(string \<Rightarrow> string) \<Rightarrow> pyval \<Rightarrow> string" where
  "py_repr rs PNone = ''None''"
| "py_repr rs (PBool b) = (if b then ''True'' else ''False'')"
| "py_repr rs (PInt i) = str_int i"
| "py_repr rs (PFloat s) = s"
| "py_repr rs (PStr s) = rs s"
| "py_repr rs (PList vs) = ''['' @ join '', '' (map (py_repr rs) vs) @ '']''"
| "py_repr rs (PDict kvs) =
     ''{'' @ join '', '' (map (\<lambda>(k, r). rs k @ '': '' @ r) (map (map_prod id (py_repr rs)) kvs)) @ ''}''"

text \<open>\<^verbatim>\<open>"{}".format(v)\<close>, that is \<^verbatim>\<open>str(v)\<close>: a \<^verbatim>\<open>str\<close> is itself, the rest is its repr.\<close>

definition py_str :: "(string \<Rightarrow> string) \<Rightarrow> pyval \<Rightarrow> string" where
  "py_str rs v = (case v of PStr s \<Rightarrow> s | _ \<Rightarrow> py_repr rs v)"

section \<open>The world of a request\<close>

datatype level = DEBUG | INFO | WARNING | ERROR | CRITICAL

text \<open>One call of \<^verbatim>\<open>SMTPService._send_message\<close>, by its four positional arguments.\<close>

record mail =
  address :: pyval
  subject :: string
  html_message :: string
  text_message :: string

text \<open>The object \<^verbatim>\<open>SettingsService.get_settings()\<close> returns, by what its
  \<^verbatim>\<open>to_primitive()\<close> does.\<close>

datatype settings_dto = SettingsDTO (to_primitive: "exn + pyval")

datatype rejection = Unauthorized | Forbidden

text \<open>
  Modelled from the spec: \<^verbatim>\<open>token_auth\<close> and \<^verbatim>\<open>tm\<close> come from
  \<^verbatim>\<open>server.services.users.authentication_service\<close>, which is not among the sources.
  The spec gives the session collaborator as "authenticated identity or rejects", a
  rejection being an answer 401 or 403.
\<close>

datatype session = Identity pyval | Rejected rejection

fun rejection_status :: "rejection \<Rightarrow> nat" where
  "rejection_status Unauthorized = 401"
| "rejection_status Forbidden = 403"

text \<open>
  What a handler finds around it: the collaborators it imports and the request in flight.
  Each collaborator is given by what its call does: return, or raise.
\<close>

record env =
  swagger :: "exn + (string \<times> pyval) list"
  get_settings :: "exn + settings_dto"
  get_json :: "exn + pyval"
  config :: "(string \<times> pyval) list"
  session :: session
  authenticated_user_id :: pyval
  send_message :: "mail \<Rightarrow> exn option"
  repr_str :: "string \<Rightarrow> string"

text \<open>
  What a handler leaves behind: the records of \<^verbatim>\<open>current_app.logger\<close> and the calls made
  to \<^verbatim>\<open>SMTPService._send_message\<close>, oldest first.
\<close>

record world =
  log :: "(level \<times> string) list"
  outbox :: "mail list"

record response =
  payload :: pyval
  status :: nat

text \<open>A handler answers, or lets an exception through to the framework, or is never
  entered because the session collaborator refused the request.\<close>

datatype outcome = Responded response | Propagated exn | Refused rejection

fun status_of :: "outcome \<Rightarrow> nat option" where
  "status_of (Responded r) = Some (status r)"
| "status_of (Propagated x) = None"
| "status_of (Refused r) = Some (rejection_status r)"

definition critical :: "string \<Rightarrow> world \<Rightarrow> world" where
  "critical msg w = w\<lparr>log := log w @ [(CRITICAL, msg)]\<rparr>"

section \<open>The handlers\<close>

subsection \<open>\<^verbatim>\<open>SystemHeartbeatAPI.get\<close>\<close>

definition SystemHeartbeatAPI_get :: "env \<Rightarrow> world \<Rightarrow> outcome \<times> world" where
  "SystemHeartbeatAPI_get e w =
     (Responded \<lparr>payload = PDict [(''status'', PStr ''healthy'')], status = 200\<rparr>, w)"

subsection \<open>\<^verbatim>\<open>SystemDocsAPI.get\<close>\<close>

text \<open>
  \<^verbatim>\<open>swag["info"][k] = v\<close>: the nested dict is changed in place, which in the tree of
  values is an update of \<open>swag\<close> at the key \<^verbatim>\<open>info\<close>.
\<close>

definition set_info :: "(string \<times> pyval) list \<Rightarrow> string \<Rightarrow> pyval \<Rightarrow> exn + (string \<times> pyval) list" where
  "set_info swag k v =
     (case getitem swag ''info'' of
        Inl x \<Rightarrow> Inl x
      | Inr info \<Rightarrow>
          (case setitem info k v of
             Inl x \<Rightarrow> Inl x
           | Inr info' \<Rightarrow> Inr (AList.update ''info'' info' swag)))"

text \<open>There is no \<^verbatim>\<open>try\<close> in this handler: whatever is raised goes through.\<close>

definition SystemDocsAPI_get :: "env \<Rightarrow> world \<Rightarrow> outcome \<times> world" where
  "SystemDocsAPI_get e w =
     (case swagger e of
        Inl x \<Rightarrow> (Propagated x, w)
      | Inr swag \<Rightarrow>
          (case set_info swag ''title'' (PStr ''Tasking Manager backend API'') of
             Inl x \<Rightarrow> (Propagated x, w)
           | Inr swag1 \<Rightarrow>
               (case set_info swag1 ''description'' (PStr ''API endpoints for the backend'') of
                  Inl x \<Rightarrow> (Propagated x, w)
                | Inr swag2 \<Rightarrow>
                    (case set_info swag2 ''version'' (PStr ''2.0.0'') of
                       Inl x \<Rightarrow> (Propagated x, w)
                     | Inr swag3 \<Rightarrow> (Responded \<lparr>payload = PDict swag3, status = 200\<rparr>, w)))))"

subsection \<open>\<^verbatim>\<open>SystemLanguagesAPI.get\<close>\<close>

text \<open>The \<^verbatim>\<open>try\<close> block.\<close>

definition languages_try :: "env \<Rightarrow> exn + response" where
  "languages_try e =
     (case get_settings e of
        Inl x \<Rightarrow> Inl x
      | Inr languages \<Rightarrow>
          (case to_primitive languages of
             Inl x \<Rightarrow> Inl x
           | Inr p \<Rightarrow> Inr \<lparr>payload = p, status = 200\<rparr>))"

text \<open>The handler: \<^verbatim>\<open>except Exception\<close> catches the instances of \<^verbatim>\<open>Exception\<close> only.\<close>

definition SystemLanguagesAPI_get :: "env \<Rightarrow> world \<Rightarrow> outcome \<times> world" where
  "SystemLanguagesAPI_get e w =
     (case languages_try e of
        Inr r \<Rightarrow> (Responded r, w)
      | Inl x \<Rightarrow>
          if is_Exception x
          then (Responded \<lparr>payload = PDict [(''Error'', PStr ''Unable to fetch supported languages'')],
                           status = 500\<rparr>,
                critical (''Languages GET - unhandled error: '' @ str_exn x) w)
          else (Propagated x, w))"

subsection \<open>\<^verbatim>\<open>SystemContactAdminRestAPI.post\<close>\<close>

text \<open>
  The template and its \<^verbatim>\<open>format\<close>: the second and third lines of the literal start
  with sixteen spaces.
\<close>

definition contact_message :: "(string \<Rightarrow> string) \<Rightarrow> pyval \<Rightarrow> pyval \<Rightarrow> pyval \<Rightarrow> pyval \<Rightarrow> string" where
  "contact_message rs name email uid content =
     ''New contact from '' @ py_str rs name @ '' <'' @ py_str rs email @ ''> (UID: ''
       @ py_str rs uid @ '').'' @ [CHR 0x0A]
       @ ''                <p>'' @ py_str rs content @ ''</p>'' @ [CHR 0x0A]
       @ ''                ''"

definition contact_mail :: "pyval \<Rightarrow> string \<Rightarrow> mail" where
  "contact_mail addr message =
     \<lparr>address = addr, subject = ''Tasking Manager Contact'',
      html_message = message, text_message = message\<rparr>"

text \<open>
  The \<^verbatim>\<open>try\<close> block, in the order Python evaluates it: the body, the three fields and
  the user id for the message, the configured address, then the one call of
  \<^verbatim>\<open>SMTPService._send_message\<close>, which is on record whether it returns or raises.
\<close>

definition contact_admin_try :: "env \<Rightarrow> world \<Rightarrow> (exn + response) \<times> world" where
  "contact_admin_try e w =
     (case get_json e of
        Inl x \<Rightarrow> (Inl x, w)
      | Inr data \<Rightarrow>
     (case py_get data ''name'' of
        Inl x \<Rightarrow> (Inl x, w)
      | Inr name \<Rightarrow>
     (case py_get data ''email'' of
        Inl x \<Rightarrow> (Inl x, w)
      | Inr email \<Rightarrow>
     (case py_get data ''content'' of
        Inl x \<Rightarrow> (Inl x, w)
      | Inr content \<Rightarrow>
     (case getitem (config e) ''EMAIL_FROM_ADDRESS'' of
        Inl x \<Rightarrow> (Inl x, w)
      | Inr addr \<Rightarrow>
          (let m = contact_mail addr
                     (contact_message (repr_str e) name email (authenticated_user_id e) content);
               w' = w\<lparr>outbox := outbox w @ [m]\<rparr>
           in case send_message e m of
                Some x \<Rightarrow> (Inl x, w')
              | None \<Rightarrow>
                  (Inr \<lparr>payload = PDict [(''Success'', PStr ''Email sent'')], status = 201\<rparr>,
                   w')))))))"

text \<open>The body of \<^verbatim>\<open>post\<close>, as it runs once the decorators have let the request in.\<close>

definition contact_admin_post :: "env \<Rightarrow> world \<Rightarrow> outcome \<times> world" where
  "contact_admin_post e w =
     (case contact_admin_try e w of
        (Inr r, w') \<Rightarrow> (Responded r, w')
      | (Inl x, w') \<Rightarrow>
          if is_Exception x
          then (Responded \<lparr>payload = PDict [(''Error'', PStr ''Unable to fetch application keys'')],
                           status = 500\<rparr>,
                critical (''Application GET API - unhandled error: '' @ str_exn x) w')
          else (Propagated x, w'))"

text \<open>
  Modelled from the spec: the decorators \<^verbatim>\<open>@tm.pm_only(False)\<close> and
  \<^verbatim>\<open>@token_auth.login_required\<close> are defined outside the sources. By the spec any
  authenticated user is let in whatever the role, the identity is what the body reads as
  \<^verbatim>\<open>tm.authenticated_user_id\<close>, and a rejection is answered 401 or 403 before the body
  runs.
\<close>

definition SystemContactAdminRestAPI_post :: "env \<Rightarrow> world \<Rightarrow> outcome \<times> world" where
  "SystemContactAdminRestAPI_post e w =
     (case session e of
        Rejected r \<Rightarrow> (Refused r, w)
      | Identity uid \<Rightarrow> contact_admin_post (e\<lparr>authenticated_user_id := uid\<rparr>) w)"

section \<open>A sample deployment\<close>

text \<open>
  A request as the test of the spec describes it: the body of Alice, user 7 logged in, an
  administrative address configured, a mail service that accepts every message, and the
  document \<^verbatim>\<open>flask_swagger\<close> starts from.
\<close>

definition alice_body :: pyval where
  "alice_body = PDict [(''name'', PStr ''Alice''), (''email'', PStr ''a@x.com''), (''content'', PStr ''Hi'')]"

definition sample_env :: env where
  "sample_env =
     \<lparr>swagger = Inr [(''info'', PDict [(''version'', PStr ''0.0.0''), (''title'', PStr ''Cool product name'')]),
                     (''paths'', PDict []), (''definitions'', PDict [])],
      get_settings = Inr (SettingsDTO (Inr (PDict [(''defaultLanguage'', PStr ''en'')]))),
      get_json = Inr alice_body,
      config = [(''EMAIL_FROM_ADDRESS'', PStr ''admin@example.org'')],
      session = Identity (PInt 7),
      authenticated_user_id = PInt 7,
      send_message = (\<lambda>m. None),
      repr_str = quoted\<rparr>"

definition sample_world :: world where
  "sample_world = \<lparr>log = [], outbox = []\<rparr>"

section \<open>Properties\<close>

subsection \<open>The health check\<close>

text \<open>
  C7. The health check answers \<^verbatim>\<open>{"status": "healthy"}\<close> with status 200 whatever the
  collaborators and the world are, and leaves the world as it found it: nothing is
  logged, no mail is sent, no collaborator is consulted.
\<close>

theorem heartbeat_fixed:
  "SystemHeartbeatAPI_get e w =
     (Responded \<lparr>payload = PDict [(''status'', PStr ''healthy'')], status = 200\<rparr>, w)"
  by (simp add: SystemHeartbeatAPI_get_def)

subsection \<open>The API description\<close>

text \<open>A successful \<^verbatim>\<open>swag["info"][k] = v\<close> found a dict under \<^verbatim>\<open>info\<close> and left it
  there with \<open>k\<close> set.\<close>

lemma set_info_Inr:
  assumes "set_info swag k v = Inr swag'"
  shows "\<exists>info. map_of swag ''info'' = Some (PDict info)
           \<and> swag' = AList.update ''info'' (PDict (AList.update k v info)) swag"
proof -
  from assms obtain i where i: "map_of swag ''info'' = Some i"
    by (auto simp: set_info_def getitem_def split: option.splits)
  with assms obtain info where "i = PDict info"
    by (cases i) (simp_all add: set_info_def getitem_def)
  with i assms show ?thesis
    by (auto simp: set_info_def getitem_def)
qed

lemma set_info_lookup:
  assumes "set_info swag k v = Inr swag'"
  shows "\<exists>info. map_of swag ''info'' = Some (PDict info)
           \<and> map_of swag' ''info'' = Some (PDict (AList.update k v info))"
  using set_info_Inr [OF assms] by (auto simp: update_conv')

text \<open>
  C8. Whenever the docs handler answers, that is whenever \<^verbatim>\<open>swagger(current_app)\<close> returned
  and the three assignments went through, the document it returns has under \<^verbatim>\<open>info\<close> the
  title "Tasking Manager backend API", the description "API endpoints for the backend"
  and the version "2.0.0", none of them empty; the status is 200 and the world is untouched.
\<close>

theorem docs_info:
  assumes "SystemDocsAPI_get e w = (Responded r, w')"
  shows "\<exists>doc info. payload r = PDict doc \<and> map_of doc ''info'' = Some (PDict info)
           \<and> map_of info ''title'' = Some (PStr ''Tasking Manager backend API'')
           \<and> map_of info ''description'' = Some (PStr ''API endpoints for the backend'')
           \<and> map_of info ''version'' = Some (PStr ''2.0.0'')
           \<and> ''Tasking Manager backend API'' \<noteq> [] \<and> ''API endpoints for the backend'' \<noteq> []
           \<and> ''2.0.0'' \<noteq> []
           \<and> status r = 200 \<and> w' = w"
proof -
  from assms obtain swag swag1 swag2 swag3 where
    s0: "swagger e = Inr swag"
    and s1: "set_info swag ''title'' (PStr ''Tasking Manager backend API'') = Inr swag1"
    and s2: "set_info swag1 ''description'' (PStr ''API endpoints for the backend'') = Inr swag2"
    and s3: "set_info swag2 ''version'' (PStr ''2.0.0'') = Inr swag3"
    and r: "r = \<lparr>payload = PDict swag3, status = 200\<rparr>" and w: "w' = w"
    by (auto simp: SystemDocsAPI_get_def split: sum.splits)
  from set_info_lookup [OF s1] obtain i0 where
    i1: "map_of swag1 ''info'' = Some (PDict (AList.update ''title'' (PStr ''Tasking Manager backend API'') i0))"
    by blast
  from set_info_lookup [OF s2] i1 have
    i2: "map_of swag2 ''info'' = Some (PDict (AList.update ''description'' (PStr ''API endpoints for the backend'')
           (AList.update ''title'' (PStr ''Tasking Manager backend API'') i0)))"
    by auto
  from set_info_lookup [OF s3] i2 have
    i3: "map_of swag3 ''info'' = Some (PDict (AList.update ''version'' (PStr ''2.0.0'')
           (AList.update ''description'' (PStr ''API endpoints for the backend'')
           (AList.update ''title'' (PStr ''Tasking Manager backend API'') i0))))"
    by auto
  show ?thesis
    using r w i3 by (simp add: update_conv')
qed

theorem docs_info_witness:
  "SystemDocsAPI_get sample_env sample_world =
     (Responded \<lparr>payload = PDict
        [(''info'', PDict [(''version'', PStr ''2.0.0''), (''title'', PStr ''Tasking Manager backend API''),
                           (''description'', PStr ''API endpoints for the backend'')]),
         (''paths'', PDict []), (''definitions'', PDict [])], status = 200\<rparr>, sample_world)
   \<and> (\<exists>doc info. PDict
        [(''info'', PDict [(''version'', PStr ''2.0.0''), (''title'', PStr ''Tasking Manager backend API''),
                           (''description'', PStr ''API endpoints for the backend'')]),
         (''paths'', PDict []), (''definitions'', PDict [])] = PDict doc
         \<and> map_of doc ''info'' = Some (PDict info)
         \<and> map_of info ''title'' = Some (PStr ''Tasking Manager backend API''))"
proof -
  have run: "SystemDocsAPI_get sample_env sample_world =
     (Responded \<lparr>payload = PDict
        [(''info'', PDict [(''version'', PStr ''2.0.0''), (''title'', PStr ''Tasking Manager backend API''),
                           (''description'', PStr ''API endpoints for the backend'')]),
         (''paths'', PDict []), (''definitions'', PDict [])], status = 200\<rparr>, sample_world)"
    by (simp add: SystemDocsAPI_get_def sample_env_def set_info_def getitem_def)
  from docs_info [OF run] run show ?thesis by simp
qed

subsection \<open>The supported languages\<close>

text \<open>
  C2. If \<^verbatim>\<open>get_settings()\<close> returns a snapshot that serialises to \<open>p\<close>, the handler answers
  200 with exactly \<open>p\<close> and logs nothing. If \<^verbatim>\<open>get_settings()\<close> raises an exception (an
  instance of \<^verbatim>\<open>Exception\<close>, which is what the handler catches) with any text \<open>t\<close>,
  the handler answers 500 with exactly \<^verbatim>\<open>{"Error": "Unable to fetch supported languages"}\<close>;
  the text goes to the log at critical severity only, and the answer is the same
  whatever the text is.
\<close>

theorem languages_get:
  "SystemLanguagesAPI_get (e\<lparr>get_settings := Inr (SettingsDTO (Inr p))\<rparr>) w =
     (Responded \<lparr>payload = p, status = 200\<rparr>, w)
   \<and> SystemLanguagesAPI_get (e\<lparr>get_settings := Inl (Exception t)\<rparr>) w =
     (Responded \<lparr>payload = PDict [(''Error'', PStr ''Unable to fetch supported languages'')],
                 status = 500\<rparr>,
      critical (''Languages GET - unhandled error: '' @ t) w)
   \<and> fst (SystemLanguagesAPI_get (e\<lparr>get_settings := Inl (Exception t)\<rparr>) w) =
     fst (SystemLanguagesAPI_get (e\<lparr>get_settings := Inl (Exception t')\<rparr>) w)"
  by (simp add: SystemLanguagesAPI_get_def languages_try_def)

text \<open>The same answer when it is the serialisation that raises; an exception outside
  \<^verbatim>\<open>Exception\<close> is not caught.\<close>

lemma languages_get_serialisation_raises:
  "SystemLanguagesAPI_get (e\<lparr>get_settings := Inr (SettingsDTO (Inl (Exception t)))\<rparr>) w =
     (Responded \<lparr>payload = PDict [(''Error'', PStr ''Unable to fetch supported languages'')],
                 status = 500\<rparr>,
      critical (''Languages GET - unhandled error: '' @ t) w)"
  by (simp add: SystemLanguagesAPI_get_def languages_try_def)

lemma languages_get_not_caught:
  "SystemLanguagesAPI_get (e\<lparr>get_settings := Inl (BaseException t)\<rparr>) w =
     (Propagated (BaseException t), w)"
  by (simp add: SystemLanguagesAPI_get_def languages_try_def)

subsection \<open>The contact form\<close>


lemma contact_admin_try_dict:
  assumes "get_json e = Inr (PDict kvs)"
    and "map_of (config e) ''EMAIL_FROM_ADDRESS'' = Some addr"
  shows "contact_admin_try e w =
     (let m = contact_mail addr (contact_message (repr_str e) (dict_get kvs ''name'')
                (dict_get kvs ''email'') (authenticated_user_id e) (dict_get kvs ''content''));
          w' = w\<lparr>outbox := outbox w @ [m]\<rparr>
      in case send_message e m of
           Some x \<Rightarrow> (Inl x, w')
         | None \<Rightarrow> (Inr \<lparr>payload = PDict [(''Success'', PStr ''Email sent'')], status = 201\<rparr>, w'))"
  using assms by (simp add: contact_admin_try_def getitem_def)

lemma contact_admin_try_outbox:
  assumes "contact_admin_try e w = (res, w')"
  shows "log w' = log w \<and>
    (outbox w' = outbox w \<or>
     (\<exists>m. outbox w' = outbox w @ [m] \<and> html_message m = text_message m \<and>
        (case res of Inl x \<Rightarrow> send_message e m = Some x | Inr r \<Rightarrow> send_message e m = None)))"
  using assms
  by (auto simp: contact_admin_try_def Let_def contact_mail_def split: sum.splits option.splits)

lemma contact_admin_try_status:
  "contact_admin_try e w = (Inr r, w') \<Longrightarrow>
     r = \<lparr>payload = PDict [(''Success'', PStr ''Email sent'')], status = 201\<rparr>"
  by (auto simp: contact_admin_try_def Let_def split: sum.splits option.splits)

text \<open>The template written out, and what a block that returned has sent.\<close>

lemma contact_message_text:
  "contact_message rs name email uid content =
     ''New contact from '' @ py_str rs name @ '' <'' @ py_str rs email @ ''> (UID: ''
       @ py_str rs uid @ '').'' @ [CHR 0x0A]
       @ ''                <p>'' @ py_str rs content @ ''</p>'' @ [CHR 0x0A]
       @ ''                ''"
  by (simp add: contact_message_def)

lemma contact_admin_try_sent:
  assumes "contact_admin_try e w = (Inr r, w')"
  shows "\<exists>kvs addr. get_json e = Inr (PDict kvs)
           \<and> map_of (config e) ''EMAIL_FROM_ADDRESS'' = Some addr
           \<and> outbox w' = outbox w @
               [contact_mail addr (contact_message (repr_str e) (dict_get kvs ''name'')
                  (dict_get kvs ''email'') (authenticated_user_id e) (dict_get kvs ''content''))]
           \<and> send_message e
               (contact_mail addr (contact_message (repr_str e) (dict_get kvs ''name'')
                  (dict_get kvs ''email'') (authenticated_user_id e) (dict_get kvs ''content'')))
               = None"
proof -
  from assms obtain data where d: "get_json e = Inr data"
    by (auto simp: contact_admin_try_def split: sum.splits)
  with assms obtain kvs where k: "data = PDict kvs"
    by (cases data) (simp_all add: contact_admin_try_def)
  from assms d k obtain addr where a: "map_of (config e) ''EMAIL_FROM_ADDRESS'' = Some addr"
    by (auto simp: contact_admin_try_def getitem_def split: option.splits)
  from d k have g: "get_json e = Inr (PDict kvs)" by simp
  from assms show ?thesis
    unfolding contact_admin_try_dict [OF g a]
    by (intro exI [of _ kvs] exI [of _ addr]) (auto simp: g a Let_def split: option.splits)
qed

text \<open>What the \<^verbatim>\<open>except\<close> clause does with what the \<^verbatim>\<open>try\<close> block raised.\<close>

lemma contact_admin_post_raised:
  "contact_admin_try e w = (Inl x, w') \<Longrightarrow> is_Exception x \<Longrightarrow>
   contact_admin_post e w =
     (Responded \<lparr>payload = PDict [(''Error'', PStr ''Unable to fetch application keys'')],
                 status = 500\<rparr>,
      critical (''Application GET API - unhandled error: '' @ str_exn x) w')"
  by (simp add: contact_admin_post_def)

lemma contact_admin_post_not_caught:
  "contact_admin_try e w = (Inl x, w') \<Longrightarrow> \<not> is_Exception x \<Longrightarrow>
   contact_admin_post e w = (Propagated x, w')"
  by (simp add: contact_admin_post_def)

lemma contact_admin_post_status:
  "status_of (fst (contact_admin_post e w)) \<in> {None, Some 201, Some 500}"
proof (cases "contact_admin_try e w")
  case (Pair res w')
  show ?thesis
  proof (cases res)
    case (Inl x)
    with Pair show ?thesis by (simp add: contact_admin_post_def)
  next
    case (Inr r)
    with Pair contact_admin_try_status [of e w r w'] show ?thesis
      by (simp add: contact_admin_post_def)
  qed
qed

text \<open>The two errors the block raises by itself: a body that is not a dict, and a config
  without the address.\<close>

lemma contact_admin_post_not_dict:
  "get_json e = Inr v \<Longrightarrow> type_name v \<noteq> ''dict'' \<Longrightarrow>
   contact_admin_post e w =
     (Responded \<lparr>payload = PDict [(''Error'', PStr ''Unable to fetch application keys'')],
                 status = 500\<rparr>,
      critical (''Application GET API - unhandled error: '' @ str_exn (AttributeError v ''get'')) w)"
  by (cases v) (simp_all add: contact_admin_post_def contact_admin_try_def AttributeError_def)

lemma contact_admin_post_no_address:
  "get_json e = Inr (PDict kvs) \<Longrightarrow> map_of (config e) ''EMAIL_FROM_ADDRESS'' = None \<Longrightarrow>
   contact_admin_post e w =
     (Responded \<lparr>payload = PDict [(''Error'', PStr ''Unable to fetch application keys'')],
                 status = 500\<rparr>,
      critical (''Application GET API - unhandled error: '' @ quoted ''EMAIL_FROM_ADDRESS'') w)"
  by (simp add: contact_admin_post_def contact_admin_try_def getitem_def KeyError_def)



text \<open>
  C6. With a JSON object as body, whichever of its fields are missing, an administrative
  address in the config and a mail service that does not raise on the message, the body
  of \<^verbatim>\<open>post\<close> answers 201 and has made one call of the mail service: to the
  configured address, with the subject "Tasking Manager Contact", and with the template
  filled from what \<^verbatim>\<open>data.get\<close> gives for the three fields as both bodies. A missing
  field gives \<^verbatim>\<open>None\<close>, printed as the text "None". No field is required.
\<close>

theorem contact_admin_missing_fields:
  assumes "get_json e = Inr (PDict kvs)"
    and "map_of (config e) ''EMAIL_FROM_ADDRESS'' = Some addr"
    and "msg = ''New contact from '' @ py_str (repr_str e) (dict_get kvs ''name'')
           @ '' <'' @ py_str (repr_str e) (dict_get kvs ''email'')
           @ ''> (UID: '' @ py_str (repr_str e) (authenticated_user_id e) @ '').'' @ [CHR 0x0A]
           @ ''                <p>'' @ py_str (repr_str e) (dict_get kvs ''content'') @ ''</p>''
           @ [CHR 0x0A] @ ''                ''"
    and "send_message e \<lparr>address = addr, subject = ''Tasking Manager Contact'',
           html_message = msg, text_message = msg\<rparr> = None"
  shows "contact_admin_post e w =
           (Responded \<lparr>payload = PDict [(''Success'', PStr ''Email sent'')], status = 201\<rparr>,
            w\<lparr>outbox := outbox w @ [\<lparr>address = addr, subject = ''Tasking Manager Contact'',
                                      html_message = msg, text_message = msg\<rparr>]\<rparr>)
         \<and> (\<forall>k. map_of kvs k = None \<longrightarrow>
               dict_get kvs k = PNone \<and> py_str (repr_str e) (dict_get kvs k) = ''None'')"
proof -
  have none: "\<forall>k. map_of kvs k = None \<longrightarrow>
      dict_get kvs k = PNone \<and> py_str (repr_str e) (dict_get kvs k) = ''None''"
    by (simp add: dict_get_def py_str_def)
  have m: "contact_mail addr (contact_message (repr_str e) (dict_get kvs ''name'')
      (dict_get kvs ''email'') (authenticated_user_id e) (dict_get kvs ''content'')) =
      \<lparr>address = addr, subject = ''Tasking Manager Contact'', html_message = msg,
       text_message = msg\<rparr>"
    unfolding assms(3) contact_message_text by (simp add: contact_mail_def)
  have "contact_admin_try e w =
      (Inr \<lparr>payload = PDict [(''Success'', PStr ''Email sent'')], status = 201\<rparr>,
       w\<lparr>outbox := outbox w @ [\<lparr>address = addr, subject = ''Tasking Manager Contact'',
                                 html_message = msg, text_message = msg\<rparr>]\<rparr>)"
    unfolding contact_admin_try_dict [OF assms(1,2)] m using assms(4) by simp
  then have post: "contact_admin_post e w =
      (Responded \<lparr>payload = PDict [(''Success'', PStr ''Email sent'')], status = 201\<rparr>,
       w\<lparr>outbox := outbox w @ [\<lparr>address = addr, subject = ''Tasking Manager Contact'',
                                 html_message = msg, text_message = msg\<rparr>]\<rparr>)"
    by (simp add: contact_admin_post_def)
  from post none show ?thesis by (rule conjI)
qed

theorem contact_admin_missing_fields_witness:
  "map_of [(''name'', PStr ''Alice''), (''email'', PStr ''a@x.com'')] ''content'' = None
   \<and> contact_admin_post
       (sample_env\<lparr>get_json := Inr (PDict [(''name'', PStr ''Alice''), (''email'', PStr ''a@x.com'')])\<rparr>)
       sample_world =
     (Responded \<lparr>payload = PDict [(''Success'', PStr ''Email sent'')], status = 201\<rparr>,
      \<lparr>log = [], outbox = [\<lparr>address = PStr ''admin@example.org'',
          subject = ''Tasking Manager Contact'',
          html_message = ''New contact from Alice <a@x.com> (UID: 7).'' @ [CHR 0x0A]
                 @ ''                <p>None</p>'' @ [CHR 0x0A] @ ''                '',
          text_message = ''New contact from Alice <a@x.com> (UID: 7).'' @ [CHR 0x0A]
                 @ ''                <p>None</p>'' @ [CHR 0x0A] @ ''                ''\<rparr>]\<rparr>)
   \<and> dict_get [(''name'', PStr ''Alice''), (''email'', PStr ''a@x.com'')] ''content'' = PNone
   \<and> py_str quoted (dict_get [(''name'', PStr ''Alice''), (''email'', PStr ''a@x.com'')] ''content'')
       = ''None''"
  using contact_admin_missing_fields [of
      "sample_env\<lparr>get_json := Inr (PDict [(''name'', PStr ''Alice''), (''email'', PStr ''a@x.com'')])\<rparr>"
      "[(''name'', PStr ''Alice''), (''email'', PStr ''a@x.com'')]"
      "PStr ''admin@example.org''"
      "''New contact from Alice <a@x.com> (UID: 7).'' @ [CHR 0x0A]
                 @ ''                <p>None</p>'' @ [CHR 0x0A] @ ''                ''"
      sample_world]
  by (simp add: sample_env_def sample_world_def dict_get_def py_str_def
      str_int_def str_nat.simps digit_char_def)

text \<open>
  C10. Whenever the body of \<^verbatim>\<open>post\<close> answers 201, the request body was a JSON object
  and exactly one call of the mail service was made, which returned: to the configured
  address, with the subject "Tasking Manager Contact", and with the composed message, the
  template filled from the fields of the body and the id of the user, as the HTML body
  and as the plain-text body alike.
\<close>

theorem contact_admin_bodies_equal:
  assumes "contact_admin_post e w = (Responded r, w')" and "status r = 201"
  shows "\<exists>m kvs. get_json e = Inr (PDict kvs)
           \<and> outbox w' = outbox w @ [m]
           \<and> html_message m = text_message m
           \<and> send_message e m = None
           \<and> html_message m =
               ''New contact from '' @ py_str (repr_str e) (dict_get kvs ''name'')
               @ '' <'' @ py_str (repr_str e) (dict_get kvs ''email'')
               @ ''> (UID: '' @ py_str (repr_str e) (authenticated_user_id e) @ '').''
               @ [CHR 0x0A] @ ''                <p>''
               @ py_str (repr_str e) (dict_get kvs ''content'') @ ''</p>''
               @ [CHR 0x0A] @ ''                ''
           \<and> text_message m =
               ''New contact from '' @ py_str (repr_str e) (dict_get kvs ''name'')
               @ '' <'' @ py_str (repr_str e) (dict_get kvs ''email'')
               @ ''> (UID: '' @ py_str (repr_str e) (authenticated_user_id e) @ '').''
               @ [CHR 0x0A] @ ''                <p>''
               @ py_str (repr_str e) (dict_get kvs ''content'') @ ''</p>''
               @ [CHR 0x0A] @ ''                ''
           \<and> subject m = ''Tasking Manager Contact''
           \<and> map_of (config e) ''EMAIL_FROM_ADDRESS'' = Some (address m)"
proof (cases "contact_admin_try e w")
  case (Pair res w1)
  show ?thesis
  proof (cases res)
    case (Inl x)
    with Pair assms show ?thesis
      by (auto simp: contact_admin_post_def split: if_splits)
  next
    case (Inr r1)
    with Pair assms have w: "w1 = w'" by (simp add: contact_admin_post_def)
    from Pair Inr w have "contact_admin_try e w = (Inr r1, w')" by simp
    from contact_admin_try_sent [OF this] obtain kvs addr where
      g: "get_json e = Inr (PDict kvs)"
      and a: "map_of (config e) ''EMAIL_FROM_ADDRESS'' = Some addr"
      and o: "outbox w' = outbox w @
               [contact_mail addr (contact_message (repr_str e) (dict_get kvs ''name'')
                  (dict_get kvs ''email'') (authenticated_user_id e) (dict_get kvs ''content''))]"
      and s: "send_message e
               (contact_mail addr (contact_message (repr_str e) (dict_get kvs ''name'')
                  (dict_get kvs ''email'') (authenticated_user_id e) (dict_get kvs ''content'')))
               = None"
      by blast
    let ?m = "contact_mail addr (contact_message (repr_str e) (dict_get kvs ''name'')
                  (dict_get kvs ''email'') (authenticated_user_id e) (dict_get kvs ''content''))"
    define T where "T = ''New contact from '' @ py_str (repr_str e) (dict_get kvs ''name'')
               @ '' <'' @ py_str (repr_str e) (dict_get kvs ''email'')
               @ ''> (UID: '' @ py_str (repr_str e) (authenticated_user_id e) @ '').''
               @ [CHR 0x0A] @ ''                <p>''
               @ py_str (repr_str e) (dict_get kvs ''content'') @ ''</p>''
               @ [CHR 0x0A] @ ''                ''"
    have cm: "contact_message (repr_str e) (dict_get kvs ''name'')
                  (dict_get kvs ''email'') (authenticated_user_id e) (dict_get kvs ''content'') = T"
      unfolding T_def by (rule contact_message_text)
    have f: "html_message ?m = T" "text_message ?m = T"
      "subject ?m = ''Tasking Manager Contact''" "address ?m = addr"
      by (simp_all add: contact_mail_def cm)
    have all: "get_json e = Inr (PDict kvs)
           \<and> outbox w' = outbox w @ [?m]
           \<and> html_message ?m = text_message ?m
           \<and> send_message e ?m = None
           \<and> html_message ?m = T
           \<and> text_message ?m = T
           \<and> subject ?m = ''Tasking Manager Contact''
           \<and> map_of (config e) ''EMAIL_FROM_ADDRESS'' = Some (address ?m)"
      using g a o s f by simp
    show ?thesis
      by (rule exI [of _ ?m], rule exI [of _ kvs]) (rule all [unfolded T_def])
  qed
qed

theorem contact_admin_bodies_equal_witness:
  "contact_admin_post sample_env sample_world =
      (Responded \<lparr>payload = PDict [(''Success'', PStr ''Email sent'')], status = 201\<rparr>,
       \<lparr>log = [], outbox = [\<lparr>address = PStr ''admin@example.org'',
          subject = ''Tasking Manager Contact'',
          html_message = ''New contact from Alice <a@x.com> (UID: 7).'' @ [CHR 0x0A]
                 @ ''                <p>Hi</p>'' @ [CHR 0x0A] @ ''                '',
          text_message = ''New contact from Alice <a@x.com> (UID: 7).'' @ [CHR 0x0A]
                 @ ''                <p>Hi</p>'' @ [CHR 0x0A] @ ''                ''\<rparr>]\<rparr>)
   \<and> (\<exists>m. outbox (snd (contact_admin_post sample_env sample_world)) = outbox sample_world @ [m]
          \<and> html_message m = text_message m
          \<and> html_message m = ''New contact from Alice <a@x.com> (UID: 7).'' @ [CHR 0x0A]
                 @ ''                <p>Hi</p>'' @ [CHR 0x0A] @ ''                ''
          \<and> send_message sample_env m = None)"
proof -
  have run: "contact_admin_post sample_env sample_world =
      (Responded \<lparr>payload = PDict [(''Success'', PStr ''Email sent'')], status = 201\<rparr>,
       \<lparr>log = [], outbox = [\<lparr>address = PStr ''admin@example.org'',
          subject = ''Tasking Manager Contact'',
          html_message = ''New contact from Alice <a@x.com> (UID: 7).'' @ [CHR 0x0A]
                 @ ''                <p>Hi</p>'' @ [CHR 0x0A] @ ''                '',
          text_message = ''New contact from Alice <a@x.com> (UID: 7).'' @ [CHR 0x0A]
                 @ ''                <p>Hi</p>'' @ [CHR 0x0A] @ ''                ''\<rparr>]\<rparr>)"
    by (simp add: contact_admin_post_def contact_admin_try_def sample_env_def sample_world_def
        alice_body_def getitem_def Let_def contact_mail_def contact_message_def dict_get_def
        py_str_def str_int_def str_nat.simps digit_char_def)
  have st: "status \<lparr>payload = PDict [(''Success'', PStr ''Email sent'')], status = 201\<rparr> = 201"
    by simp
  from contact_admin_bodies_equal [OF run st] run show ?thesis
    by (simp add: sample_env_def sample_world_def)
qed

text \<open>
  C4. If the \<^verbatim>\<open>try\<close> block of \<^verbatim>\<open>post\<close> raises an exception \<open>x\<close> (an instance of
  \<^verbatim>\<open>Exception\<close>, which is what the handler catches), the handler answers 500 with the
  fixed payload \<^verbatim>\<open>{"Error": "Unable to fetch application keys"}\<close>, in which \<open>x\<close> does not
  occur, and adds one record at critical severity, with the text of \<open>x\<close>, to the log.
  The mail service has been called not at all, or once, and then it is that call which
  raised \<open>x\<close>: nothing is sent again after a failure.
\<close>

theorem contact_admin_failure:
  assumes "contact_admin_try e w = (Inl x, w')" and "is_Exception x"
  shows "contact_admin_post e w =
     (Responded \<lparr>payload = PDict [(''Error'', PStr ''Unable to fetch application keys'')],
                 status = 500\<rparr>,
      critical (''Application GET API - unhandled error: '' @ str_exn x) w')
    \<and> log w' = log w
    \<and> (outbox w' = outbox w \<or> (\<exists>m. outbox w' = outbox w @ [m] \<and> send_message e m = Some x))"
  using contact_admin_post_raised [OF assms] contact_admin_try_outbox [OF assms(1)]
  by auto

theorem contact_admin_failure_witness:
  "contact_admin_post (sample_env\<lparr>send_message := (\<lambda>m. Some (Exception ''Connection refused''))\<rparr>)
       sample_world =
     (Responded \<lparr>payload = PDict [(''Error'', PStr ''Unable to fetch application keys'')],
                 status = 500\<rparr>,
      \<lparr>log = [(CRITICAL, ''Application GET API - unhandled error: Connection refused'')],
       outbox = [contact_mail (PStr ''admin@example.org'')
                   (contact_message quoted (PStr ''Alice'') (PStr ''a@x.com'') (PInt 7) (PStr ''Hi''))]\<rparr>)"
proof -
  let ?e = "sample_env\<lparr>send_message := (\<lambda>m. Some (Exception ''Connection refused''))\<rparr>"
  let ?w = "sample_world\<lparr>outbox := [contact_mail (PStr ''admin@example.org'')
                   (contact_message quoted (PStr ''Alice'') (PStr ''a@x.com'') (PInt 7) (PStr ''Hi''))]\<rparr>"
  have tr: "contact_admin_try ?e sample_world = (Inl (Exception ''Connection refused''), ?w)"
    by (simp add: contact_admin_try_def sample_env_def sample_world_def alice_body_def
        getitem_def dict_get_def)
  have ex: "is_Exception (Exception ''Connection refused'')" by simp
  show ?thesis
    using contact_admin_failure [OF tr ex]
    by (simp add: critical_def sample_world_def)
qed

text \<open>
  C9. When \<^verbatim>\<open>request.get_json()\<close> gives \<^verbatim>\<open>None\<close>, the first field access raises
  \<^verbatim>\<open>AttributeError\<close>, the handler answers 500 with exactly
  \<^verbatim>\<open>{"Error": "Unable to fetch application keys"}\<close>, the error is logged at critical
  severity, and the mail service is not called.
\<close>

theorem contact_admin_no_body:
  "py_get PNone k = Inl (AttributeError PNone ''get'')
   \<and> contact_admin_post (e\<lparr>get_json := Inr PNone\<rparr>) w =
     (Responded \<lparr>payload = PDict [(''Error'', PStr ''Unable to fetch application keys'')],
                 status = 500\<rparr>,
      critical (''Application GET API - unhandled error: '' @ quoted ''NoneType''
                  @ '' object has no attribute '' @ quoted ''get'') w)
   \<and> outbox (snd (contact_admin_post (e\<lparr>get_json := Inr PNone\<rparr>) w)) = outbox w"
  by (simp add: contact_admin_post_def contact_admin_try_def AttributeError_def critical_def)

text \<open>
  C3. The docstring of \<^verbatim>\<open>post\<close> documents an answer 400 for an invalid request. The
  handler never gives it: a body that \<^verbatim>\<open>get_json()\<close> reads as \<^verbatim>\<open>None\<close> and a body on
  which \<^verbatim>\<open>get_json()\<close> raises are both answered 500, and whatever the request, the
  status is 201 or 500 when there is an answer at all.
\<close>

theorem contact_admin_invalid_body_status:
  "status_of (fst (contact_admin_post (e\<lparr>get_json := Inr PNone\<rparr>) w)) = Some 500
   \<and> status_of (fst (contact_admin_post (e\<lparr>get_json := Inl (Exception t)\<rparr>) w)) = Some 500
   \<and> status_of (fst (contact_admin_post e w)) \<in> {None, Some 201, Some 500}"
  using contact_admin_post_status [of e w]
  by (simp add: contact_admin_post_def contact_admin_try_def AttributeError_def)

text \<open>
  C5. When the session collaborator rejects the request, the body of \<^verbatim>\<open>post\<close> does not
  run: the world is as before, no call of the mail service among it, and the status is
  that of the rejection, 401 or 403.
\<close>

theorem unauthenticated_refused:
  "SystemContactAdminRestAPI_post (e\<lparr>session := Rejected r\<rparr>) w = (Refused r, w)
   \<and> outbox (snd (SystemContactAdminRestAPI_post (e\<lparr>session := Rejected r\<rparr>) w)) = outbox w
   \<and> status_of (fst (SystemContactAdminRestAPI_post (e\<lparr>session := Rejected r\<rparr>) w))
        \<in> {Some 401, Some 403}"
  by (cases r) (simp_all add: SystemContactAdminRestAPI_post_def)

end
